theory Spec2Isabelle
  imports Complex_Main
begin

section \<open>Data model of the LCU client (client.go)\<close>

text \<open>
  Values decoded from JSON by \<^verbatim>\<open>encoding/json\<close> into \<^verbatim>\<open>interface{}\<close>:
  \<^verbatim>\<open>nil\<close>, \<^verbatim>\<open>bool\<close>, \<^verbatim>\<open>float64\<close>, \<^verbatim>\<open>string\<close>, \<^verbatim>\<open>[]interface{}\<close> and
  \<^verbatim>\<open>map[string]interface{}\<close>. Every float64 a JSON text can denote is a rational
  number; the only arithmetic the client does on one is the comparison with the opcode 8.
  A decoded object is kept as the list of its entries and read with \<open>map_of\<close>.
\<close>

datatype json =
    JNull
  | JBool bool
  | JNum rat
  | JStr string
  | JArr "json list"
  | JObj "(string \<times> json) list"

text \<open>\<^verbatim>\<open>type Credentials struct { Port int; Password string; Protocol string }\<close>\<close>

record Credentials =
  Port :: int
  Password :: string
  Protocol :: string

text \<open>\<^verbatim>\<open>type Event struct { EventType string; URI string; Data interface{} }\<close>\<close>

record Event =
  EventType :: string
  URI :: string
  Data :: json

text \<open>
  \<^verbatim>\<open>type EventHandler func(event *Event)\<close>. A handler passed in by the caller is an
  opaque function; it is modelled by an identifier, and calling it is recorded as the
  pair of the identifier and the event it received.
\<close>

type_synonym EventHandler = nat
type_synonym handler_call = "EventHandler \<times> Event"

datatype error = Errorf string

datatype panic = Panic string

text \<open>
  A Go slice is a reference to a backing array that its holders share. The variadic
  parameter \<^verbatim>\<open>eventTypes ...EventType\<close> of \<^verbatim>\<open>Subscribe\<close> is such a slice: for a call
  \<^verbatim>\<open>Subscribe(t, h, types...)\<close> it is the caller's own slice, for a call with the types
  written out it is a fresh one. So the arrays live in a heap, a slice is the address of
  its array, and an address outside the heap reads as the nil slice. The caller can
  write an element of a slice it holds; an index out of range panics.
\<close>

type_synonym slice = nat
type_synonym heap = "string list list"

definition sliceElems :: "heap \<Rightarrow> slice \<Rightarrow> string list" where
  "sliceElems hp a = (if a < length hp then hp ! a else [])"

definition newSlice :: "heap \<Rightarrow> string list \<Rightarrow> slice \<times> heap" where
  "newSlice hp xs = (length hp, hp @ [xs])"

definition writeSlice :: "heap \<Rightarrow> slice \<Rightarrow> nat \<Rightarrow> string \<Rightarrow> panic + heap" where
  "writeSlice hp a i v =
     (if i < length (sliceElems hp a) then Inr (hp[a := (hp ! a)[i := v]])
      else Inl (Panic ''index out of range''))"

text \<open>
  The only function values ever stored in \<^verbatim>\<open>c.handlers\<close> are the closures
  \<^verbatim>\<open>wrappedHandler\<close> built by \<^verbatim>\<open>Subscribe\<close>; a closure is the pair of the variables it
  captures: the caller's handler and the slice \<^verbatim>\<open>eventTypes\<close>, by reference. The
  closure reads the elements of the slice each time it is called.
\<close>

datatype closure = WrappedHandler (handler: EventHandler) (eventTypes: slice)

text \<open>A call of the \<^verbatim>\<open>Logger\<close> interface: level, endpoint, format string, arguments.\<close>

type_synonym log_call = "string \<times> string \<times> string \<times> string list"

text \<open>
  The gorilla/websocket connection, seen from the client: the JSON messages written so
  far, and the results the environment will give to the coming \<^verbatim>\<open>WriteJSON\<close> calls
  (\<open>None\<close>: the write succeeds; \<open>Some e\<close>: it fails with \<open>e\<close>; an exhausted list:
  every further write succeeds).
\<close>

record ws_conn =
  written :: "json list list"
  writeResults :: "error option list"

text \<open>
  \<^verbatim>\<open>type Client struct\<close>. The two locks are left out: every operation below runs
  alone. \<open>doneClosed\<close> is the state of the channel \<^verbatim>\<open>done\<close>; \<open>logger\<close> is the list of
  calls the logger has received, \<open>loggerHasClose\<close> says whether the logger has a
  \<^verbatim>\<open>Close()\<close> method and \<open>loggerCloseCalls\<close> counts the calls of it.
\<close>

record Client =
  credentials :: Credentials
  wsConn :: "ws_conn option"
  handlers :: "string \<rightharpoonup> closure list"
  doneClosed :: bool
  logger :: "log_call list"
  loggerHasClose :: bool
  loggerCloseCalls :: nat
  configDebug :: bool

section \<open>Event router: Subscribe, Unsubscribe\<close>

text \<open>\<^verbatim>\<open>var validEventTypes = map[string]bool{"Create": true, "Update": true, "Delete": true}\<close>;
  reading a missing key of the Go map gives \<^verbatim>\<open>false\<close>.\<close>

definition validEventTypes :: "string \<Rightarrow> bool" where
  "validEventTypes t = (t = ''Create'' \<or> t = ''Update'' \<or> t = ''Delete'')"

text \<open>Reading \<^verbatim>\<open>c.handlers[k]\<close>: a missing key gives the nil slice.\<close>

definition handlersAt :: "(string \<rightharpoonup> closure list) \<Rightarrow> string \<Rightarrow> closure list" where
  "handlersAt m k = (case m k of None \<Rightarrow> [] | Some hs \<Rightarrow> hs)"

text \<open>\<^verbatim>\<open>c.logger.Debug(endpoint, msg, args...)\<close>\<close>

definition logDebug :: "string \<Rightarrow> string \<Rightarrow> string list \<Rightarrow> Client \<Rightarrow> Client" where
  "logDebug endpoint msg args c = c\<lparr>logger := logger c @ [(''DEBUG'', endpoint, msg, args)]\<rparr>"

definition logError :: "string \<Rightarrow> string \<Rightarrow> string list \<Rightarrow> Client \<Rightarrow> Client" where
  "logError endpoint msg args c = c\<lparr>logger := logger c @ [(''ERROR'', endpoint, msg, args)]\<rparr>"

text \<open>\<^verbatim>\<open>conn.WriteJSON(message)\<close>: the next scripted result decides.\<close>

definition WriteJSON :: "ws_conn \<Rightarrow> json list \<Rightarrow> error option \<times> ws_conn" where
  "WriteJSON conn message =
     (case writeResults conn of
        [] \<Rightarrow> (None, conn\<lparr>written := written conn @ [message]\<rparr>)
      | None # rs \<Rightarrow> (None, conn\<lparr>written := written conn @ [message], writeResults := rs\<rparr>)
      | Some e # rs \<Rightarrow> (Some e, conn\<lparr>writeResults := rs\<rparr>))"

text \<open>The argument logged for \<^verbatim>\<open>%+v\<close>: the model keeps the topic of the message.\<close>

fun showMessage :: "json list \<Rightarrow> string" where
  "showMessage [JNum n, JStr s] = s"
| "showMessage m = []"

definition sendWebSocketMessage :: "Client \<Rightarrow> json list \<Rightarrow> error option \<times> Client" where
  "sendWebSocketMessage c message =
     (case wsConn c of
        None \<Rightarrow> (Some (Errorf ''WebSocket connection not established''), c)
      | Some conn \<Rightarrow>
          (let c1 = (if configDebug c
                     then logDebug ''websocket'' ''Sending WebSocket message: %+v'' [showMessage message] c
                     else c);
               (r, conn') = WriteJSON conn message
           in (r, c1\<lparr>wsConn := Some conn'\<rparr>)))"

text \<open>The validation loop at the head of \<^verbatim>\<open>Subscribe\<close>: the first invalid type, if any.\<close>

fun firstInvalid :: "string list \<Rightarrow> string option" where
  "firstInvalid [] = None"
| "firstInvalid (eventType # rest) =
     (if \<not> validEventTypes eventType then Some eventType else firstInvalid rest)"

text \<open>The loop over \<^verbatim>\<open>subscriptions\<close>: stop at the first send that fails.\<close>

fun sendSubscriptions :: "Client \<Rightarrow> string list \<Rightarrow> error option \<times> Client" where
  "sendSubscriptions c [] = (None, c)"
| "sendSubscriptions c (uri # rest) =
     (case sendWebSocketMessage c [JNum 5, JStr uri] of
        (Some (Errorf e), c') \<Rightarrow>
          (Some (Errorf (''failed to send subscription message for '' @ uri @ '': '' @ e)), c')
      | (None, c') \<Rightarrow> sendSubscriptions c' rest)"

text \<open>
  \<^verbatim>\<open>Subscribe\<close>. The heap is read, by the validation loop, and not written; the
  closure keeps the slice itself.
\<close>

definition Subscribe ::
  "heap \<Rightarrow> Client \<Rightarrow> string \<Rightarrow> EventHandler \<Rightarrow> slice \<Rightarrow> error option \<times> Client" where
  "Subscribe hp c endpoint h evTypes =
     (if length (sliceElems hp evTypes) > 0 then
        (case firstInvalid (sliceElems hp evTypes) of
           Some eventType \<Rightarrow>
             (Some (Errorf (''invalid event type: '' @ eventType
                    @ ''. Valid types are: Create, Update, Delete'')), c)
         | None \<Rightarrow>
             (let wrappedHandler = WrappedHandler h evTypes;
                  hs1 = (handlers c)(endpoint \<mapsto> handlersAt (handlers c) endpoint @ [wrappedHandler]);
                  hs2 = hs1(''OnJsonApiEvent'' \<mapsto> handlersAt hs1 ''OnJsonApiEvent'' @ [wrappedHandler])
              in sendSubscriptions (c\<lparr>handlers := hs2\<rparr>) [endpoint, ''OnJsonApiEvent'']))
      else
        (Some (Errorf ''at least one event type must be specified. Valid types are: Create, Update, Delete''), c))"

text \<open>\<^verbatim>\<open>delete(c.handlers, endpoint)\<close>, then the unsubscribe message.\<close>

definition Unsubscribe :: "Client \<Rightarrow> string \<Rightarrow> error option \<times> Client" where
  "Unsubscribe c endpoint =
     sendWebSocketMessage (c\<lparr>handlers := (handlers c)(endpoint := None)\<rparr>) [JNum 6, JStr endpoint]"

text \<open>\<^verbatim>\<open>SubscribeToAll\<close> writes the three types out: the slice is a fresh one.\<close>

definition SubscribeToAll ::
  "heap \<Rightarrow> Client \<Rightarrow> EventHandler \<Rightarrow> (error option \<times> Client) \<times> heap" where
  "SubscribeToAll hp c h =
     (let (evTypes, hp1) = newSlice hp [''Create'', ''Update'', ''Delete'']
      in (Subscribe hp1 c ''/'' h evTypes, hp1))"

text \<open>
  Calling the closure \<^verbatim>\<open>wrappedHandler\<close> on an event: the loop over the captured
  \<^verbatim>\<open>eventTypes\<close>, read from the heap as it is at the call, calls the caller's handler
  at the first match and returns. The result is the list of calls of the caller's
  handler that were made (none or one).
\<close>

fun wrappedHandlerLoop :: "EventHandler \<Rightarrow> string list \<Rightarrow> Event \<Rightarrow> handler_call list" where
  "wrappedHandlerLoop h [] event = []"
| "wrappedHandlerLoop h (eventType # rest) event =
     (if EventType event = eventType then [(h, event)] else wrappedHandlerLoop h rest event)"

fun callClosure :: "heap \<Rightarrow> closure \<Rightarrow> Event \<Rightarrow> handler_call list" where
  "callClosure hp (WrappedHandler h evTypes) event =
     wrappedHandlerLoop h (sliceElems hp evTypes) event"

section \<open>Event router: the listener and the dispatch of inbound frames\<close>

text \<open>A goroutine started by \<^verbatim>\<open>go handler(event)\<close>: the closure and its argument.\<close>

type_synonym goroutine = "closure \<times> Event"

text \<open>
  \<^verbatim>\<open>handleEvent\<close>. The two checked type assertions (\<^verbatim>\<open>v, ok := x.(T)\<close>) return on a
  mismatch; the two unchecked ones (\<^verbatim>\<open>eventData["eventType"].(string)\<close>,
  \<^verbatim>\<open>eventData["uri"].(string)\<close>) panic when the key is missing (a nil interface) or
  holds another type. \<^verbatim>\<open>eventData["data"]\<close> of a missing key is nil. The result is
  the list of goroutines started, in the order of the final loop.
\<close>

definition handleEvent :: "Client \<Rightarrow> json list \<Rightarrow> panic + goroutine list" where
  "handleEvent c message =
     (if length message < 3 then Inr []
      else
        (case message ! 1 of
           JStr eventName \<Rightarrow>
             (case message ! 2 of
                JObj eventData \<Rightarrow>
                  (case map_of eventData ''eventType'' of
                     Some (JStr evType) \<Rightarrow>
                       (case map_of eventData ''uri'' of
                          Some (JStr uri) \<Rightarrow>
                            (let event = \<lparr>EventType = evType, URI = uri,
                                   Data = (case map_of eventData ''data'' of
                                             None \<Rightarrow> JNull | Some d \<Rightarrow> d)\<rparr>;
                                 hs = (if eventName = ''OnJsonApiEvent''
                                       then handlersAt (handlers c) (URI event)
                                            @ handlersAt (handlers c) ''/''
                                       else handlersAt (handlers c) eventName)
                             in Inr (map (\<lambda>h. (h, event)) hs))
                        | _ \<Rightarrow> Inl (Panic ''interface conversion: interface {} is not string''))
                   | _ \<Rightarrow> Inl (Panic ''interface conversion: interface {} is not string''))
              | _ \<Rightarrow> Inr [])
         | _ \<Rightarrow> Inr []))"

text \<open>How a run of the listener goroutine stands at the end of the frames given to it.\<close>

datatype listener_exit =
    DoneClosed
  | ReadFailed
  | Recovered
  | AwaitingFrame

text \<open>
  \<^verbatim>\<open>listenForEvents\<close>, run against the results of the successive \<^verbatim>\<open>ReadJSON\<close> calls
  (\<open>Inl\<close>: the read fails; \<open>Inr message\<close>: the decoded array). The registry and the
  channel \<^verbatim>\<open>done\<close> are those of the client at the start: nothing else runs meanwhile.
  A panic of \<^verbatim>\<open>handleEvent\<close> unwinds to the deferred \<^verbatim>\<open>recover\<close>, which logs it, and
  the function returns. The accumulator holds the goroutines started so far.
\<close>

fun listenLoop ::
  "Client \<Rightarrow> (error + json list) list \<Rightarrow> goroutine list \<Rightarrow> goroutine list \<times> listener_exit \<times> Client" where
  "listenLoop c [] started =
     (if doneClosed c then (started, DoneClosed, c) else (started, AwaitingFrame, c))"
| "listenLoop c (Inl (Errorf e) # reads) started =
     (if doneClosed c then (started, DoneClosed, c)
      else (started, ReadFailed,
            logError ''websocket'' ''Failed to read WebSocket message: %v'' [e] c))"
| "listenLoop c (Inr message # reads) started =
     (if doneClosed c then (started, DoneClosed, c)
      else
        (case message of
           [] \<Rightarrow> listenLoop c reads started
         | first # _ \<Rightarrow>
             (let raw = map (\<lambda>h. (h, \<lparr>EventType = ''WebSocketMessage'',
                                        URI = ''OnJsonApiEvent'',
                                        Data = JArr message\<rparr>))
                            (handlersAt (handlers c) ''OnJsonApiEvent'')
              in (case first of
                    JNum opcode \<Rightarrow>
                      (if opcode = 8 then
                         (case handleEvent c message of
                            Inl (Panic r) \<Rightarrow>
                              (started @ raw, Recovered,
                               logError ''websocket'' ''WebSocket listener panic: %v'' [r] c)
                          | Inr evs \<Rightarrow> listenLoop c reads (started @ raw @ evs))
                       else listenLoop c reads (started @ raw))
                  | _ \<Rightarrow> listenLoop c reads (started @ raw)))))"

definition listenForEvents ::
  "Client \<Rightarrow> (error + json list) list \<Rightarrow> goroutine list \<times> listener_exit \<times> Client" where
  "listenForEvents c reads = listenLoop c reads []"

text \<open>The calls of the callers' handlers that a list of started goroutines makes.\<close>

definition userCalls :: "heap \<Rightarrow> goroutine list \<Rightarrow> handler_call list" where
  "userCalls hp gs = concat (map (\<lambda>(h, event). callClosure hp h event) gs)"

section \<open>Connection manager: Disconnect\<close>

text \<open>
  \<^verbatim>\<open>Disconnect\<close>. \<^verbatim>\<open>close(c.done)\<close> on a channel that is already closed panics, and
  nothing in the function recovers. Closing the socket is followed by dropping the
  reference to it. The error returned is always nil.
\<close>

definition Disconnect :: "Client \<Rightarrow> panic + (error option \<times> Client)" where
  "Disconnect c =
     (if doneClosed c then Inl (Panic ''close of closed channel'')
      else
        (let c1 = c\<lparr>doneClosed := True\<rparr>;
             c2 = (case wsConn c1 of None \<Rightarrow> c1 | Some conn \<Rightarrow> c1\<lparr>wsConn := None\<rparr>);
             c3 = (if loggerHasClose c2
                   then c2\<lparr>loggerCloseCalls := Suc (loggerCloseCalls c2)\<rparr> else c2)
         in Inr (None, c3)))"

section \<open>Credential resolver: the lockfile\<close>

text \<open>\<^verbatim>\<open>strings.Split(s, sep)\<close> for a one-byte separator.\<close>

fun Split :: "string \<Rightarrow> char \<Rightarrow> string list" where
  "Split [] sep = [[]]"
| "Split (ch # rest) sep =
     (if ch = sep then [] # Split rest sep
      else (case Split rest sep of
              [] \<Rightarrow> [[ch]]
            | part # parts \<Rightarrow> (ch # part) # parts))"

text \<open>
  \<^verbatim>\<open>strconv.Atoi\<close> with a 64-bit \<^verbatim>\<open>int\<close>: an optional sign, then at least one decimal
  digit and nothing else (the byte test \<^verbatim>\<open>ch -= '0'; ch > 9\<close> with its wrap-around
  written out); a value outside the range of \<^verbatim>\<open>int\<close> is an error.
\<close>

fun atoiDigits :: "nat \<Rightarrow> string \<Rightarrow> nat option" where
  "atoiDigits n [] = Some n"
| "atoiDigits n (ch # rest) =
     (let d = (of_char ch + 256 - 48) mod 256
      in if d > (9::nat) then None else atoiDigits (n * 10 + d) rest)"

definition Atoi :: "string \<Rightarrow> int option" where
  "Atoi s =
     (case s of
        [] \<Rightarrow> None
      | ch # rest \<Rightarrow>
          (let digits = (if ch = CHR ''-'' \<or> ch = CHR ''+'' then rest else s)
           in if digits = [] then None
              else (case atoiDigits 0 digits of
                      None \<Rightarrow> None
                    | Some n \<Rightarrow>
                        (let v = (if ch = CHR ''-'' then - int n else int n)
                         in if - (2 ^ 63) \<le> v \<and> v < 2 ^ 63 then Some v else None))))"

text \<open>
  The body of the loop of \<^verbatim>\<open>findCredentialsFromLockfile\<close> once the file has been
  read: \<open>None\<close> stands for each of its two \<^verbatim>\<open>continue\<close> statements.
\<close>

definition parseLockfile :: "string \<Rightarrow> Credentials option" where
  "parseLockfile data =
     (let parts = Split data CHR '':''
      in if length parts \<noteq> 5 then None
         else (case Atoi (parts ! 2) of
                 None \<Rightarrow> None
               | Some port \<Rightarrow> Some \<lparr>Port = port, Password = parts ! 3, Protocol = parts ! 4\<rparr>))"

text \<open>
  The loop over \<^verbatim>\<open>possiblePaths\<close>. \<open>readFile\<close> is \<^verbatim>\<open>os.ReadFile\<close> (\<open>None\<close>: the read
  fails); the calls of \<^verbatim>\<open>config.Logger.Debug\<close> are collected in the last argument.
\<close>

fun lockfileLoop ::
  "bool \<Rightarrow> (string \<Rightarrow> string option) \<Rightarrow> string list \<Rightarrow> log_call list
     \<Rightarrow> log_call list \<times> (error + Credentials)" where
  "lockfileLoop debug readFile [] logs =
     (logs, Inl (Errorf ''no valid lockfile found in any of the possible locations''))"
| "lockfileLoop debug readFile (path # paths) logs =
     (let logs1 = (if debug
                   then logs @ [(''DEBUG'', ''lockfile'', ''Trying lockfile path: %s'', [path])]
                   else logs)
      in (case readFile path of
            None \<Rightarrow> lockfileLoop debug readFile paths logs1
          | Some data \<Rightarrow>
              (case parseLockfile data of
                 None \<Rightarrow> lockfileLoop debug readFile paths logs1
               | Some creds \<Rightarrow>
                   ((if debug
                     then logs1 @ [(''DEBUG'', ''lockfile'', ''Found valid lockfile at: %s'', [path])]
                     else logs1),
                    Inr creds))))"

text \<open>
  \<^verbatim>\<open>findCredentialsFromLockfile\<close>: the candidate paths by platform, then the loop.
  \<^verbatim>\<open>filepath.Join\<close> and \<^verbatim>\<open>runtime.GOOS\<close> belong to the platform and are parameters.
\<close>

definition findCredentialsFromLockfile ::
  "(string list \<Rightarrow> string) \<Rightarrow> string \<Rightarrow> (string \<Rightarrow> string option) \<Rightarrow> bool \<Rightarrow> string
     \<Rightarrow> log_call list \<Rightarrow> log_call list \<times> (error + Credentials)" where
  "findCredentialsFromLockfile Join GOOS readFile debug LeaguePath logs =
     (let custom = (if LeaguePath \<noteq> [] then [Join [LeaguePath, ''lockfile'']] else [])
      in if GOOS = ''windows'' then
           lockfileLoop debug readFile
             (custom @ map (\<lambda>drive. Join [drive @ '':'', ''Riot Games'', ''League of Legends'', ''lockfile''])
                          [''C'', ''D'', ''E'', ''F'', ''G''])
             logs
         else if GOOS = ''darwin'' then
           lockfileLoop debug readFile
             (custom @ [''/Applications/League of Legends.app/Contents/LoL/lockfile''])
             logs
         else if GOOS = ''linux'' then
           lockfileLoop debug readFile
             (custom @ map (\<lambda>drive. Join [''/mnt'', drive, ''Riot Games'', ''League of Legends'', ''lockfile''])
                          [''c'', ''d'', ''e'', ''f'', ''g''])
             logs
         else (logs, Inl (Errorf (''unsupported platform: '' @ GOOS))))"

text \<open>The inverse of \<open>Split\<close>, to state what \<open>Split\<close> computes.\<close>

fun joinWith :: "char \<Rightarrow> string list \<Rightarrow> string" where
  "joinWith sep [] = []"
| "joinWith sep [f] = f"
| "joinWith sep (f # g # fs) = f @ sep # joinWith sep (g # fs)"

section \<open>Request gateway\<close>

text \<open>
  An \<^verbatim>\<open>io.Reader\<close> is a reference to a stream with a read position, and \<^verbatim>\<open>Request\<close>
  reads the stream it was given through two references (\<^verbatim>\<open>body\<close> and \<^verbatim>\<open>req.Body\<close>).
  So readers live in a store, addressed by numbers: each holds the bytes not read yet,
  and whether \<^verbatim>\<open>http.NewRequest\<close> can tell its length (\<^verbatim>\<open>*bytes.Reader\<close>,
  \<^verbatim>\<open>*bytes.Buffer\<close>, \<^verbatim>\<open>*strings.Reader\<close>).
\<close>

record reader =
  remaining :: string
  sized :: bool

text \<open>What the transport is handed for one request, and what the server answers.\<close>

record wire_request =
  wMethod :: string
  wURL :: string
  wHeader :: "(string \<times> string) list"
  wContentLength :: nat
  wBody :: string

record wire_response =
  wStatus :: string
  wPayload :: string

text \<open>The store of readers, the next free address, and the requests handed to the
  transport so far.\<close>

record io_state =
  readers :: "nat \<rightharpoonup> reader"
  nextReader :: nat
  wire :: "wire_request list"

text \<open>\<^verbatim>\<open>http.Request\<close> and \<^verbatim>\<open>http.Response\<close>: the bodies are references into the store.\<close>

record http_Request =
  reqMethod :: string
  reqURL :: string
  reqHeader :: "(string \<times> string) list"
  reqContentLength :: nat
  reqBody :: "nat option"

record http_Response =
  respStatus :: string
  respBody :: nat

text \<open>
  The library functions \<^verbatim>\<open>Request\<close> calls and the server it talks to are parameters:
  \<^verbatim>\<open>url.JoinPath\<close>, the failure of \<^verbatim>\<open>http.NewRequest\<close>, \<^verbatim>\<open>base64.StdEncoding.EncodeToString\<close>,
  the verb \<^verbatim>\<open>%d\<close>, and the round trip of \<^verbatim>\<open>httpClient.Do\<close>.
\<close>

record stdlib =
  url_JoinPath :: "string \<Rightarrow> string \<Rightarrow> error + string"
  http_NewRequest_error :: "string \<Rightarrow> string \<Rightarrow> error option"
  base64_EncodeToString :: "string \<Rightarrow> string"
  fmt_d :: "int \<Rightarrow> string"
  RoundTrip :: "wire_request \<Rightarrow> error + wire_response"

text \<open>\<^verbatim>\<open>io.ReadAll(r)\<close> returns the bytes left and leaves the reader at its end.\<close>

definition ReadAll :: "io_state \<Rightarrow> nat \<Rightarrow> string \<times> io_state" where
  "ReadAll st r =
     (case readers st r of
        None \<Rightarrow> ([], st)
      | Some rd \<Rightarrow> (remaining rd, st\<lparr>readers := (readers st)(r \<mapsto> rd\<lparr>remaining := []\<rparr>)\<rparr>))"

text \<open>\<^verbatim>\<open>bytes.NewReader(bs)\<close>: a fresh reader over \<open>bs\<close>.\<close>

definition NewReader :: "io_state \<Rightarrow> string \<Rightarrow> bool \<Rightarrow> nat \<times> io_state" where
  "NewReader st bs known =
     (nextReader st,
      st\<lparr>readers := (readers st)(nextReader st \<mapsto> \<lparr>remaining = bs, sized = known\<rparr>),
         nextReader := Suc (nextReader st)\<rparr>)"

text \<open>
  \<^verbatim>\<open>http.NewRequest(method, url, body)\<close>: \<^verbatim>\<open>req.Body\<close> wraps the very reader passed
  in, and \<^verbatim>\<open>req.ContentLength\<close> is taken from it when its length is known.
\<close>

definition NewRequest ::
  "stdlib \<Rightarrow> io_state \<Rightarrow> string \<Rightarrow> string \<Rightarrow> nat option \<Rightarrow> error + http_Request" where
  "NewRequest lib st method url body =
     (case http_NewRequest_error lib method url of
        Some e \<Rightarrow> Inl e
      | None \<Rightarrow>
          Inr \<lparr>reqMethod = method, reqURL = url, reqHeader = [],
               reqContentLength =
                 (case body of
                    None \<Rightarrow> 0
                  | Some r \<Rightarrow>
                      (case readers st r of
                         None \<Rightarrow> 0
                       | Some rd \<Rightarrow> if sized rd then length (remaining rd) else 0)),
               reqBody = body\<rparr>)"

text \<open>
  \<^verbatim>\<open>c.httpClient.Do(req)\<close>: the transport reads \<^verbatim>\<open>req.Body\<close> to its end and hands the
  request to the server; the response body is a fresh stream of unknown length.
\<close>

definition Do :: "stdlib \<Rightarrow> io_state \<Rightarrow> http_Request \<Rightarrow> (error + http_Response) \<times> io_state" where
  "Do lib st req =
     (let (payload, st1) = (case reqBody req of None \<Rightarrow> ([], st) | Some r \<Rightarrow> ReadAll st r);
          w = \<lparr>wMethod = reqMethod req, wURL = reqURL req, wHeader = reqHeader req,
               wContentLength = reqContentLength req, wBody = payload\<rparr>;
          st2 = st1\<lparr>wire := wire st1 @ [w]\<rparr>
      in (case RoundTrip lib w of
            Inl e \<Rightarrow> (Inl e, st2)
          | Inr resp \<Rightarrow>
              (let (b, st3) = NewReader st2 (wPayload resp) False
               in (Inr \<lparr>respStatus = wStatus resp, respBody = b\<rparr>, st3))))"

text \<open>
  \<^verbatim>\<open>Request\<close>. In debug mode \<^verbatim>\<open>body = bytes.NewReader(bodyBytes)\<close> assigns the
  parameter \<^verbatim>\<open>body\<close>, which is not read again: the request \<open>req\<close> was built before, from
  the reader that \<^verbatim>\<open>io.ReadAll(body)\<close> has just read to its end. The errors of both
  \<^verbatim>\<open>io.ReadAll\<close> calls are discarded by the source.
\<close>

definition Request ::
  "stdlib \<Rightarrow> Client \<Rightarrow> io_state \<Rightarrow> string \<Rightarrow> string \<Rightarrow> nat option
     \<Rightarrow> (error + http_Response) \<times> Client \<times> io_state" where
  "Request lib c st method endpoint body =
     (let baseURL = ''https://127.0.0.1:'' @ fmt_d lib (Port (credentials c))
      in (case url_JoinPath lib baseURL endpoint of
            Inl (Errorf e) \<Rightarrow> (Inl (Errorf (''invalid endpoint: '' @ e)), c, st)
          | Inr url \<Rightarrow>
              (case NewRequest lib st method url body of
                 Inl e \<Rightarrow> (Inl e, c, st)
               | Inr req0 \<Rightarrow>
                   (let auth = base64_EncodeToString lib (''riot:'' @ Password (credentials c));
                        req = req0\<lparr>reqHeader := [(''Authorization'', ''Basic '' @ auth),
                                                  (''Content-Type'', ''application/json'')]\<rparr>;
                        (c1, st1) =
                          (if configDebug c then
                             (let c' = logDebug endpoint ''Making %s request to %s'' [method, url] c
                              in (case body of
                                    None \<Rightarrow> (c', st)
                                  | Some r \<Rightarrow>
                                      (let (bodyBytes, st') = ReadAll st r;
                                           c'' = logDebug endpoint ''Request body: %s'' [bodyBytes] c';
                                           (body', st'') = NewReader st' bodyBytes True
                                       in (c'', st''))))
                           else (c, st))
                    in (case Do lib st1 req of
                          (Inl e, st2) \<Rightarrow> (Inl e, c1, st2)
                        | (Inr resp, st2) \<Rightarrow>
                            (if configDebug c then
                               (let (bodyBytes, st3) = ReadAll st2 (respBody resp);
                                    c2 = logDebug endpoint ''Response status: %s'' [respStatus resp] c1;
                                    c3 = logDebug endpoint ''Response body: %s'' [bodyBytes] c2;
                                    (b, st4) = NewReader st3 bodyBytes True
                                in (Inr (resp\<lparr>respBody := b\<rparr>), c3, st4))
                             else (Inr resp, c1, st2)))))))"

section \<open>Concrete clients, frames and streams used below\<close>

definition exampleConn :: ws_conn where
  "exampleConn = \<lparr>written = [], writeResults = []\<rparr>"

definition exampleClient :: Client where
  "exampleClient =
     \<lparr>credentials = \<lparr>Port = 54321, Password = ''abcDEF123'', Protocol = ''https''\<rparr>,
      wsConn = Some exampleConn,
      handlers = Map.empty,
      doneClosed = False,
      logger = [],
      loggerHasClose = False,
      loggerCloseCalls = 0,
      configDebug = False\<rparr>"

text \<open>A heap holding the slices of event types the callers below pass to \<open>Subscribe\<close>.\<close>

definition exampleHeap :: heap where
  "exampleHeap = [[''Update''], [''Update''], [''Create'', ''Update'', ''Delete''],
                  [''Update'', ''WebSocketMessage''], [''Create'', ''Update'']]"

definition offlineClient :: Client where
  "offlineClient = exampleClient\<lparr>wsConn := None,
     handlers := [''/lol-gameflow/v1/session'' \<mapsto> [WrappedHandler 7 0],
                  ''OnJsonApiEvent'' \<mapsto> [WrappedHandler 7 0]]\<rparr>"

definition onlineClient :: Client where
  "onlineClient = offlineClient\<lparr>wsConn := Some exampleConn\<rparr>"

text \<open>A connection whose next write fails, and one whose second write fails.\<close>

definition brokenConn :: ws_conn where
  "brokenConn = \<lparr>written = [], writeResults = [Some (Errorf ''write: broken pipe'')]\<rparr>"

definition breakingConn :: ws_conn where
  "breakingConn = \<lparr>written = [], writeResults = [None, Some (Errorf ''write: broken pipe'')]\<rparr>"

definition debugClient :: Client where
  "debugClient = exampleClient\<lparr>configDebug := True\<rparr>"

definition routedClient :: Client where
  "routedClient = exampleClient\<lparr>handlers :=
      [''/lol-gameflow/v1/session'' \<mapsto> [WrappedHandler 7 0],
       ''/lol-lobby/v2/lobby'' \<mapsto> [WrappedHandler 9 1],
       ''/'' \<mapsto> [WrappedHandler 3 2],
       ''OnJsonApiEvent'' \<mapsto> [WrappedHandler 7 0, WrappedHandler 9 1, WrappedHandler 3 2]]\<rparr>"

definition sessionFrame :: "json list" where
  "sessionFrame =
     [JNum 8, JStr ''OnJsonApiEvent'',
      JObj [(''eventType'', JStr ''Update''),
            (''uri'', JStr ''/lol-gameflow/v1/session''),
            (''data'', JObj [(''phase'', JStr ''InProgress'')])]]"

definition sessionEvent :: Event where
  "sessionEvent = \<lparr>EventType = ''Update'', URI = ''/lol-gameflow/v1/session'',
                    Data = JObj [(''phase'', JStr ''InProgress'')]\<rparr>"



definition badFieldsFrame :: "json list" where
  "badFieldsFrame =
     [JNum 8, JStr ''OnJsonApiEvent'', JObj [(''uri'', JStr ''/lol-gameflow/v1/session'')]]"

definition lockfiles :: "string \<Rightarrow> string option" where
  "lockfiles = [''C:/lockfile'' \<mapsto> ''LeagueClientUx:1234:port:abcDEF123:https'',
                ''D:/lockfile'' \<mapsto> ''LeagueClientUx:1234:54321:abcDEF123:https'']"

text \<open>
  A library whose server answers with the bytes it received, and whose transport fails,
  as that of \<^verbatim>\<open>net/http\<close> does, when a request that announced its length delivers
  another number of bytes.
\<close>

definition echoLib :: stdlib where
  "echoLib = \<lparr>url_JoinPath = (\<lambda>base endpoint. Inr (base @ endpoint)),
              http_NewRequest_error = (\<lambda>method url. None),
              base64_EncodeToString = (\<lambda>s. s),
              fmt_d = (\<lambda>n. ''54321''),
              RoundTrip = (\<lambda>w. if wContentLength w \<noteq> 0 \<and> wContentLength w \<noteq> length (wBody w)
                                then Inl (Errorf ''http: ContentLength with Body length mismatch'')
                                else Inr \<lparr>wStatus = ''200 OK'', wPayload = ''echo:'' @ wBody w\<rparr>)\<rparr>"

text \<open>Two request bodies: a \<^verbatim>\<open>bytes.Reader\<close> at address 0 and a plain stream at address 1.\<close>

definition oneBody :: io_state where
  "oneBody = \<lparr>readers = [0 \<mapsto> \<lparr>remaining = ''[1]'', sized = True\<rparr>,
                          1 \<mapsto> \<lparr>remaining = ''[1]'', sized = False\<rparr>],
               nextReader = 2, wire = []\<rparr>"

text \<open>The registry after the two appends of \<^verbatim>\<open>Subscribe\<close>, and the goroutines the
  listener starts with the raw message, as abbreviations for the statements below.\<close>

definition subscribed ::
  "(string \<rightharpoonup> closure list) \<Rightarrow> string \<Rightarrow> closure \<Rightarrow> (string \<rightharpoonup> closure list)" where
  "subscribed m endpoint w =
     (let m1 = m(endpoint \<mapsto> handlersAt m endpoint @ [w])
      in m1(''OnJsonApiEvent'' \<mapsto> handlersAt m1 ''OnJsonApiEvent'' @ [w]))"

definition rawGoroutines :: "Client \<Rightarrow> json list \<Rightarrow> goroutine list" where
  "rawGoroutines c message =
     map (\<lambda>h. (h, \<lparr>EventType = ''WebSocketMessage'', URI = ''OnJsonApiEvent'', Data = JArr message\<rparr>))
       (handlersAt (handlers c) ''OnJsonApiEvent'')"

section \<open>Subscribe\<close>

lemma firstInvalid_None: "firstInvalid ts = None \<longleftrightarrow> (\<forall>t\<in>set ts. validEventTypes t)"
  by (induction ts) auto

lemma Subscribe_invalid:
  assumes "sliceElems hp evTypes = [] \<or> (\<exists>t\<in>set (sliceElems hp evTypes). \<not> validEventTypes t)"
  shows "\<exists>e. Subscribe hp c endpoint h evTypes = (Some e, c)"
proof (cases "sliceElems hp evTypes = []")
  case True
  then show ?thesis by (simp add: Subscribe_def)
next
  case False
  with assms have "firstInvalid (sliceElems hp evTypes) \<noteq> None"
    by (simp add: firstInvalid_None)
  then obtain t where "firstInvalid (sliceElems hp evTypes) = Some t" by blast
  with False show ?thesis by (simp add: Subscribe_def)
qed

text \<open>
  C4. A call of \<open>Subscribe\<close> whose slice of event types is empty, or holds a type
  outside Create, Update, Delete, returns an error and the client it leaves is the client
  it found: the registry is the same under every key, and nothing has been written to
  the WebSocket.
\<close>

theorem Subscribe_rejects_bad_filter:
  assumes "sliceElems hp evTypes = [] \<or> (\<exists>t\<in>set (sliceElems hp evTypes). \<not> validEventTypes t)"
  shows "\<exists>e. Subscribe hp c endpoint h evTypes = (Some e, c)"
proof (cases "length (sliceElems hp evTypes) > 0")
  case False
  then show ?thesis by (simp add: Subscribe_def)
next
  case True
  with assms have "\<exists>t\<in>set (sliceElems hp evTypes). \<not> validEventTypes t" by auto
  then have "firstInvalid (sliceElems hp evTypes) \<noteq> None" by (simp add: firstInvalid_None)
  then obtain t where "firstInvalid (sliceElems hp evTypes) = Some t" by blast
  with True show ?thesis by (simp add: Subscribe_def)
qed

theorem Subscribe_rejects_bad_filter_witness:
  "(\<exists>e. Subscribe exampleHeap exampleClient ''/lol-gameflow/v1/session'' 7 5 = (Some e, exampleClient))
   \<and> (\<exists>e. Subscribe exampleHeap exampleClient ''/lol-gameflow/v1/session'' 7 3
            = (Some e, exampleClient))"
proof -
  have a: "sliceElems exampleHeap 5 = [] \<or> (\<exists>t\<in>set (sliceElems exampleHeap 5). \<not> validEventTypes t)"
    by (simp add: sliceElems_def exampleHeap_def)
  have b: "sliceElems exampleHeap 3 = [] \<or> (\<exists>t\<in>set (sliceElems exampleHeap 3). \<not> validEventTypes t)"
    by (simp add: sliceElems_def exampleHeap_def validEventTypes_def)
  show ?thesis
    using Subscribe_rejects_bad_filter [OF a, of exampleClient "''/lol-gameflow/v1/session''" 7]
      Subscribe_rejects_bad_filter [OF b, of exampleClient "''/lol-gameflow/v1/session''" 7]
    by simp
qed

lemma sendWebSocketMessage_handlers:
  "handlers (snd (sendWebSocketMessage c m)) = handlers c"
  by (simp add: sendWebSocketMessage_def logDebug_def WriteJSON_def
      split: option.splits list.splits prod.splits)

text \<open>What \<open>sendWebSocketMessage\<close> returns and leaves, by the state of the connection.\<close>

lemma sendWebSocketMessage_offline:
  "wsConn c = None \<Longrightarrow>
   sendWebSocketMessage c m = (Some (Errorf ''WebSocket connection not established''), c)"
  by (simp add: sendWebSocketMessage_def)

lemma sendWebSocketMessage_online:
  assumes "wsConn c = Some conn"
  shows "fst (sendWebSocketMessage c m) =
           (case writeResults conn of [] \<Rightarrow> None | r # rs \<Rightarrow> r)"
    and "wsConn (snd (sendWebSocketMessage c m)) =
           Some (case writeResults conn of
                   [] \<Rightarrow> conn\<lparr>written := written conn @ [m]\<rparr>
                 | None # rs \<Rightarrow> conn\<lparr>written := written conn @ [m], writeResults := rs\<rparr>
                 | Some e # rs \<Rightarrow> conn\<lparr>writeResults := rs\<rparr>)"
  using assms
  by (simp_all add: sendWebSocketMessage_def WriteJSON_def Let_def
      split: list.splits option.splits)

lemma sendWebSocketMessage_ok:
  "sendWebSocketMessage c m = (None, c') \<Longrightarrow>
   \<exists>conn conn'. wsConn c = Some conn \<and> wsConn c' = Some conn' \<and> written conn' = written conn @ [m]"
  by (auto simp add: sendWebSocketMessage_def logDebug_def WriteJSON_def Let_def
      split: option.splits list.splits prod.splits if_splits)

lemma sendSubscriptions_handlers:
  "handlers (snd (sendSubscriptions c uris)) = handlers c"
proof (induction uris arbitrary: c)
  case Nil
  then show ?case by simp
next
  case (Cons uri uris)
  obtain r c1 where s: "sendWebSocketMessage c [JNum 5, JStr uri] = (r, c1)"
    by (cases "sendWebSocketMessage c [JNum 5, JStr uri]")
  have h: "handlers c1 = handlers c"
    using sendWebSocketMessage_handlers [of c "[JNum 5, JStr uri]"] s by simp
  show ?case
  proof (cases r)
    case None
    with s h Cons.IH [of c1] show ?thesis by simp
  next
    case (Some e)
    with s h show ?thesis by (cases e) simp
  qed
qed

lemma sendSubscriptions_ok:
  "sendSubscriptions c uris = (None, c') \<Longrightarrow> uris \<noteq> [] \<Longrightarrow>
   \<exists>conn conn'. wsConn c = Some conn \<and> wsConn c' = Some conn'
      \<and> written conn' = written conn @ map (\<lambda>uri. [JNum 5, JStr uri]) uris"
proof (induction uris arbitrary: c)
  case Nil
  then show ?case by simp
next
  case (Cons uri uris)
  obtain r c1 where s: "sendWebSocketMessage c [JNum 5, JStr uri] = (r, c1)"
    by (cases "sendWebSocketMessage c [JNum 5, JStr uri]")
  have r: "r = None"
  proof (cases r)
    case None then show ?thesis .
  next
    case (Some e)
    with s Cons.prems show ?thesis by (cases e) simp
  qed
  with s Cons.prems have rest: "sendSubscriptions c1 uris = (None, c')" by simp
  from s r obtain conn conn1 where
    c: "wsConn c = Some conn" "wsConn c1 = Some conn1" "written conn1 = written conn @ [[JNum 5, JStr uri]]"
    using sendWebSocketMessage_ok by blast
  show ?case
  proof (cases "uris = []")
    case True
    with rest c show ?thesis by simp
  next
    case False
    from Cons.IH [OF rest False] c show ?thesis by auto
  qed
qed

text \<open>When the two sends of \<open>Subscribe\<close> end in an error: exactly when there is no
  connection, or the first or the second write is one that fails.\<close>

lemma sendSubscriptions_two_error:
  "fst (sendSubscriptions c [u1, u2]) \<noteq> None \<longleftrightarrow>
     (case wsConn c of
        None \<Rightarrow> True
      | Some conn \<Rightarrow>
          (case writeResults conn of
             Some e # rs \<Rightarrow> True
           | None # Some e # rs \<Rightarrow> True
           | _ \<Rightarrow> False))"
proof (cases "wsConn c")
  case None
  then show ?thesis by (simp add: sendWebSocketMessage_offline)
next
  case (Some conn)
  obtain r c1 where s: "sendWebSocketMessage c [JNum 5, JStr u1] = (r, c1)"
    by (cases "sendWebSocketMessage c [JNum 5, JStr u1]")
  have r: "r = (case writeResults conn of [] \<Rightarrow> None | r # rs \<Rightarrow> r)"
    using sendWebSocketMessage_online(1) [OF Some, of "[JNum 5, JStr u1]"] s by simp
  have c1: "wsConn c1 = Some (case writeResults conn of
                   [] \<Rightarrow> conn\<lparr>written := written conn @ [[JNum 5, JStr u1]]\<rparr>
                 | None # rs \<Rightarrow> conn\<lparr>written := written conn @ [[JNum 5, JStr u1]], writeResults := rs\<rparr>
                 | Some e # rs \<Rightarrow> conn\<lparr>writeResults := rs\<rparr>)"
    using sendWebSocketMessage_online(2) [OF Some, of "[JNum 5, JStr u1]"] s by simp
  show ?thesis
  proof (cases "writeResults conn")
    case Nil
    with r c1 have r0: "r = None" and w1: "wsConn c1 = Some (conn\<lparr>written := written conn @ [[JNum 5, JStr u1]]\<rparr>)"
      by simp_all
    obtain r2 c2 where s2: "sendWebSocketMessage c1 [JNum 5, JStr u2] = (r2, c2)"
      by (cases "sendWebSocketMessage c1 [JNum 5, JStr u2]")
    have "r2 = None"
      using sendWebSocketMessage_online(1) [OF w1, of "[JNum 5, JStr u2]"] s2 Nil by simp
    with s s2 r0 Some Nil show ?thesis by simp
  next
    case (Cons x rs)
    show ?thesis
    proof (cases x)
      case (Some e)
      with r Cons have "r = Some e" by simp
      with s \<open>wsConn c = Some conn\<close> Cons Some show ?thesis by (cases e) simp
    next
      case None
      with r c1 Cons have r0: "r = None"
        and w1: "wsConn c1 = Some (conn\<lparr>written := written conn @ [[JNum 5, JStr u1]], writeResults := rs\<rparr>)"
        by simp_all
      obtain r2 c2 where s2: "sendWebSocketMessage c1 [JNum 5, JStr u2] = (r2, c2)"
        by (cases "sendWebSocketMessage c1 [JNum 5, JStr u2]")
      have r2: "r2 = (case rs of [] \<Rightarrow> None | r # rs \<Rightarrow> r)"
        using sendWebSocketMessage_online(1) [OF w1, of "[JNum 5, JStr u2]"] s2 by simp
      show ?thesis
      proof (cases rs)
        case Nil
        with r2 s s2 r0 \<open>wsConn c = Some conn\<close> Cons None show ?thesis by simp
      next
        case (Cons y rs')
        show ?thesis
        proof (cases y)
          case None
          with r2 s s2 r0 \<open>wsConn c = Some conn\<close> \<open>writeResults conn = x # rs\<close> \<open>x = None\<close> Cons
          show ?thesis by simp
        next
          case (Some e)
          with r2 Cons have "r2 = Some e" by simp
          with s s2 r0 \<open>wsConn c = Some conn\<close> \<open>writeResults conn = x # rs\<close> \<open>x = None\<close> Cons Some
          show ?thesis by (cases e) simp
        qed
      qed
    qed
  qed
qed

lemma Subscribe_valid:
  assumes "sliceElems hp evTypes \<noteq> []" and "\<forall>t\<in>set (sliceElems hp evTypes). validEventTypes t"
  shows "Subscribe hp c endpoint h evTypes =
         sendSubscriptions (c\<lparr>handlers := subscribed (handlers c) endpoint (WrappedHandler h evTypes)\<rparr>)
           [endpoint, ''OnJsonApiEvent'']"
proof -
  from assms(2) have "firstInvalid (sliceElems hp evTypes) = None" by (simp add: firstInvalid_None)
  with assms(1) show ?thesis by (simp add: Subscribe_def subscribed_def Let_def)
qed

lemma Subscribe_None_valid:
  assumes "Subscribe hp c endpoint h evTypes = (None, c')"
  shows "sliceElems hp evTypes \<noteq> [] \<and> (\<forall>t\<in>set (sliceElems hp evTypes). validEventTypes t)"
proof -
  have "\<not> (sliceElems hp evTypes = [] \<or> (\<exists>t\<in>set (sliceElems hp evTypes). \<not> validEventTypes t))"
  proof
    assume "sliceElems hp evTypes = [] \<or> (\<exists>t\<in>set (sliceElems hp evTypes). \<not> validEventTypes t)"
    from Subscribe_invalid [OF this, of c endpoint h] assms show False by auto
  qed
  then show ?thesis by blast
qed

lemma subscribed_reachable:
  "w \<in> set (handlersAt (subscribed m endpoint w) endpoint)
   \<and> w \<in> set (handlersAt (subscribed m endpoint w) ''OnJsonApiEvent'')"
  by (simp add: subscribed_def handlersAt_def Let_def)

text \<open>
  C5. When \<open>Subscribe\<close> returns no error, the closure wrapping the handler is in the
  registry under the topic and under the key OnJsonApiEvent, and the connection has been
  written the two messages [5, topic] and [5, "OnJsonApiEvent"], in this order, and
  nothing else.
\<close>

theorem Subscribe_success:
  assumes "Subscribe hp c endpoint h evTypes = (None, c')"
  shows "WrappedHandler h evTypes \<in> set (handlersAt (handlers c') endpoint)
       \<and> WrappedHandler h evTypes \<in> set (handlersAt (handlers c') ''OnJsonApiEvent'')
       \<and> (\<exists>conn conn'. wsConn c = Some conn \<and> wsConn c' = Some conn'
            \<and> written conn' = written conn @ [[JNum 5, JStr endpoint], [JNum 5, JStr ''OnJsonApiEvent'']])"
proof -
  let ?c1 = "c\<lparr>handlers := subscribed (handlers c) endpoint (WrappedHandler h evTypes)\<rparr>"
  from Subscribe_None_valid [OF assms]
  have eq: "Subscribe hp c endpoint h evTypes = sendSubscriptions ?c1 [endpoint, ''OnJsonApiEvent'']"
    by (simp add: Subscribe_valid)
  with assms have s: "sendSubscriptions ?c1 [endpoint, ''OnJsonApiEvent''] = (None, c')" by simp
  have "handlers c' = handlers ?c1"
    using sendSubscriptions_handlers [of ?c1 "[endpoint, ''OnJsonApiEvent'']"] s by simp
  then have h: "handlers c' = subscribed (handlers c) endpoint (WrappedHandler h evTypes)" by simp
  from sendSubscriptions_ok [OF s] obtain conn conn' where
    "wsConn ?c1 = Some conn" "wsConn c' = Some conn'"
    "written conn' = written conn @ map (\<lambda>uri. [JNum 5, JStr uri]) [endpoint, ''OnJsonApiEvent'']"
    by blast
  then have w: "\<exists>conn conn'. wsConn c = Some conn \<and> wsConn c' = Some conn'
            \<and> written conn' = written conn @ [[JNum 5, JStr endpoint], [JNum 5, JStr ''OnJsonApiEvent'']]"
    by simp
  from h w subscribed_reachable [of "WrappedHandler h evTypes" "handlers c" endpoint]
  show ?thesis by simp
qed

lemma Subscribe_example:
  "Subscribe exampleHeap exampleClient ''/lol-gameflow/v1/session'' 7 0 =
     (None, exampleClient\<lparr>
        handlers := [''/lol-gameflow/v1/session'' \<mapsto> [WrappedHandler 7 0],
                     ''OnJsonApiEvent'' \<mapsto> [WrappedHandler 7 0]],
        wsConn := Some \<lparr>written = [[JNum 5, JStr ''/lol-gameflow/v1/session''],
                                   [JNum 5, JStr ''OnJsonApiEvent'']], writeResults = []\<rparr>\<rparr>)"
  by (simp add: Subscribe_def exampleClient_def exampleConn_def exampleHeap_def sliceElems_def
      validEventTypes_def sendWebSocketMessage_def WriteJSON_def handlersAt_def Let_def)

theorem Subscribe_success_witness:
  "Subscribe exampleHeap exampleClient ''/lol-gameflow/v1/session'' 7 0 =
     (None, exampleClient\<lparr>
        handlers := [''/lol-gameflow/v1/session'' \<mapsto> [WrappedHandler 7 0],
                     ''OnJsonApiEvent'' \<mapsto> [WrappedHandler 7 0]],
        wsConn := Some \<lparr>written = [[JNum 5, JStr ''/lol-gameflow/v1/session''],
                                   [JNum 5, JStr ''OnJsonApiEvent'']], writeResults = []\<rparr>\<rparr>)
   \<and> WrappedHandler 7 0 \<in> set (handlersAt
        [''/lol-gameflow/v1/session'' \<mapsto> [WrappedHandler 7 0],
         ''OnJsonApiEvent'' \<mapsto> [WrappedHandler 7 0]] ''/lol-gameflow/v1/session'')
   \<and> WrappedHandler 7 0 \<in> set (handlersAt
        [''/lol-gameflow/v1/session'' \<mapsto> [WrappedHandler 7 0],
         ''OnJsonApiEvent'' \<mapsto> [WrappedHandler 7 0]] ''OnJsonApiEvent'')"
  using Subscribe_example Subscribe_success [OF Subscribe_example] by simp

text \<open>
  C10. \<open>Subscribe\<close> with a valid, non-empty slice of event types changes the registry
  before it sends. It returns an error exactly when a send fails: when the connection
  is not established, or when the write of the first or of the second message fails on
  an established connection. Whenever it returns an error, the closure is nevertheless
  registered under the topic and under the key OnJsonApiEvent in the client it leaves.
\<close>

theorem Subscribe_keeps_registration_on_send_failure:
  assumes "sliceElems hp evTypes \<noteq> []" and "\<forall>t\<in>set (sliceElems hp evTypes). validEventTypes t"
  shows "(wsConn c = None \<longrightarrow> fst (Subscribe hp c endpoint h evTypes) \<noteq> None)
       \<and> (fst (Subscribe hp c endpoint h evTypes) \<noteq> None \<longleftrightarrow>
            (case wsConn c of
               None \<Rightarrow> True
             | Some conn \<Rightarrow>
                 (case writeResults conn of
                    Some e # rs \<Rightarrow> True
                  | None # Some e # rs \<Rightarrow> True
                  | _ \<Rightarrow> False)))
       \<and> (fst (Subscribe hp c endpoint h evTypes) \<noteq> None \<longrightarrow>
            WrappedHandler h evTypes \<in> set (handlersAt (handlers (snd (Subscribe hp c endpoint h evTypes))) endpoint)
          \<and> WrappedHandler h evTypes \<in> set (handlersAt (handlers (snd (Subscribe hp c endpoint h evTypes))) ''OnJsonApiEvent''))"
proof -
  let ?w = "WrappedHandler h evTypes"
  let ?c1 = "c\<lparr>handlers := subscribed (handlers c) endpoint ?w\<rparr>"
  have eq: "Subscribe hp c endpoint h evTypes = sendSubscriptions ?c1 [endpoint, ''OnJsonApiEvent'']"
    using assms by (rule Subscribe_valid)
  have "handlers (snd (Subscribe hp c endpoint h evTypes)) = handlers ?c1"
    unfolding eq by (rule sendSubscriptions_handlers)
  then have h: "handlers (snd (Subscribe hp c endpoint h evTypes)) = subscribed (handlers c) endpoint ?w"
    by simp
  have off: "wsConn c = None \<longrightarrow> fst (Subscribe hp c endpoint h evTypes) \<noteq> None"
    unfolding eq by (simp add: sendWebSocketMessage_def)
  have iff: "fst (Subscribe hp c endpoint h evTypes) \<noteq> None \<longleftrightarrow>
            (case wsConn c of
               None \<Rightarrow> True
             | Some conn \<Rightarrow>
                 (case writeResults conn of
                    Some e # rs \<Rightarrow> True
                  | None # Some e # rs \<Rightarrow> True
                  | _ \<Rightarrow> False))"
    unfolding eq using sendSubscriptions_two_error [of ?c1 endpoint "''OnJsonApiEvent''"] by simp
  from off iff h subscribed_reachable [of ?w "handlers c" endpoint] show ?thesis by simp
qed

theorem Subscribe_keeps_registration_on_send_failure_witness:
  "fst (Subscribe exampleHeap (exampleClient\<lparr>wsConn := None\<rparr>) ''/lol-gameflow/v1/session'' 7 0) \<noteq> None
   \<and> fst (Subscribe exampleHeap (exampleClient\<lparr>wsConn := Some brokenConn\<rparr>) ''/lol-gameflow/v1/session'' 7 0) \<noteq> None
   \<and> WrappedHandler 7 0 \<in> set (handlersAt (handlers (snd
        (Subscribe exampleHeap (exampleClient\<lparr>wsConn := Some brokenConn\<rparr>) ''/lol-gameflow/v1/session'' 7 0)))
        ''/lol-gameflow/v1/session'')
   \<and> WrappedHandler 7 0 \<in> set (handlersAt (handlers (snd
        (Subscribe exampleHeap (exampleClient\<lparr>wsConn := Some brokenConn\<rparr>) ''/lol-gameflow/v1/session'' 7 0)))
        ''OnJsonApiEvent'')
   \<and> fst (Subscribe exampleHeap (exampleClient\<lparr>wsConn := Some breakingConn\<rparr>) ''/lol-gameflow/v1/session'' 7 0) \<noteq> None
   \<and> fst (Subscribe exampleHeap exampleClient ''/lol-gameflow/v1/session'' 7 0) = None"
proof -
  have a: "sliceElems exampleHeap 0 \<noteq> []" by (simp add: sliceElems_def exampleHeap_def)
  have b: "\<forall>t\<in>set (sliceElems exampleHeap 0). validEventTypes t"
    by (simp add: sliceElems_def exampleHeap_def validEventTypes_def)
  note t = Subscribe_keeps_registration_on_send_failure [OF a b]
  have off: "fst (Subscribe exampleHeap (exampleClient\<lparr>wsConn := None\<rparr>) ''/lol-gameflow/v1/session'' 7 0) \<noteq> None"
    using t [of "exampleClient\<lparr>wsConn := None\<rparr>" "''/lol-gameflow/v1/session''" 7] by simp
  have broken: "fst (Subscribe exampleHeap (exampleClient\<lparr>wsConn := Some brokenConn\<rparr>) ''/lol-gameflow/v1/session'' 7 0) \<noteq> None"
    using t [of "exampleClient\<lparr>wsConn := Some brokenConn\<rparr>" "''/lol-gameflow/v1/session''" 7]
    by (simp add: brokenConn_def)
  have breaking: "fst (Subscribe exampleHeap (exampleClient\<lparr>wsConn := Some breakingConn\<rparr>) ''/lol-gameflow/v1/session'' 7 0) \<noteq> None"
    using t [of "exampleClient\<lparr>wsConn := Some breakingConn\<rparr>" "''/lol-gameflow/v1/session''" 7]
    by (simp add: breakingConn_def)
  have ok: "fst (Subscribe exampleHeap exampleClient ''/lol-gameflow/v1/session'' 7 0) = None"
    using t [of exampleClient "''/lol-gameflow/v1/session''" 7]
    by (simp add: exampleClient_def exampleConn_def)
  from broken t [of "exampleClient\<lparr>wsConn := Some brokenConn\<rparr>" "''/lol-gameflow/v1/session''" 7]
  have reg: "WrappedHandler 7 0 \<in> set (handlersAt (handlers (snd
        (Subscribe exampleHeap (exampleClient\<lparr>wsConn := Some brokenConn\<rparr>) ''/lol-gameflow/v1/session'' 7 0)))
        ''/lol-gameflow/v1/session'')
   \<and> WrappedHandler 7 0 \<in> set (handlersAt (handlers (snd
        (Subscribe exampleHeap (exampleClient\<lparr>wsConn := Some brokenConn\<rparr>) ''/lol-gameflow/v1/session'' 7 0)))
        ''OnJsonApiEvent'')"
    by blast
  from off broken breaking ok reg show ?thesis by blast
qed

section \<open>Unsubscribe\<close>

text \<open>
  C6, as stated, at a client whose WebSocket is not connected: \<open>Unsubscribe\<close> removes
  the entry of the topic, returns the error of \<open>sendWebSocketMessage\<close>, and no
  message [6, topic] is sent.
\<close>

theorem Unsubscribe_offline_counterexample:
  "fst (Unsubscribe offlineClient ''/lol-gameflow/v1/session'')
     = Some (Errorf ''WebSocket connection not established'')
   \<and> wsConn (snd (Unsubscribe offlineClient ''/lol-gameflow/v1/session'')) = None
   \<and> handlers (snd (Unsubscribe offlineClient ''/lol-gameflow/v1/session'')) ''/lol-gameflow/v1/session'' = None"
  by (simp add: Unsubscribe_def sendWebSocketMessage_def offlineClient_def exampleClient_def)

text \<open>
  C6, amended. \<open>Unsubscribe topic\<close> removes the registry entry of the topic and leaves
  the entry of every other key as it was. Without a connection it returns the error
  "WebSocket connection not established" and sends nothing. With a connection, the one
  write of the message [6, topic] decides: when it succeeds, the call returns no error
  and the connection holds exactly that message after what it held; when it fails, the
  call returns the error of the write and the connection holds what it held.
\<close>

theorem Unsubscribe_effect:
  "handlers (snd (Unsubscribe c topic)) topic = None
   \<and> (\<forall>k. k \<noteq> topic \<longrightarrow> handlers (snd (Unsubscribe c topic)) k = handlers c k)
   \<and> (case wsConn c of
        None \<Rightarrow>
          fst (Unsubscribe c topic) = Some (Errorf ''WebSocket connection not established'')
          \<and> wsConn (snd (Unsubscribe c topic)) = None
      | Some conn \<Rightarrow>
          (case writeResults conn of
             [] \<Rightarrow>
               fst (Unsubscribe c topic) = None
               \<and> wsConn (snd (Unsubscribe c topic))
                   = Some (conn\<lparr>written := written conn @ [[JNum 6, JStr topic]]\<rparr>)
           | None # rs \<Rightarrow>
               fst (Unsubscribe c topic) = None
               \<and> wsConn (snd (Unsubscribe c topic))
                   = Some (conn\<lparr>written := written conn @ [[JNum 6, JStr topic]], writeResults := rs\<rparr>)
           | Some e # rs \<Rightarrow>
               fst (Unsubscribe c topic) = Some e
               \<and> wsConn (snd (Unsubscribe c topic)) = Some (conn\<lparr>writeResults := rs\<rparr>)))"
proof -
  let ?c1 = "c\<lparr>handlers := (handlers c)(topic := None)\<rparr>"
  let ?m = "[JNum 6, JStr topic]"
  have u: "Unsubscribe c topic = sendWebSocketMessage ?c1 ?m" by (simp add: Unsubscribe_def)
  have h: "handlers (snd (Unsubscribe c topic)) = (handlers c)(topic := None)"
    unfolding u using sendWebSocketMessage_handlers [of ?c1 ?m] by simp
  have w: "(case wsConn c of
        None \<Rightarrow>
          fst (Unsubscribe c topic) = Some (Errorf ''WebSocket connection not established'')
          \<and> wsConn (snd (Unsubscribe c topic)) = None
      | Some conn \<Rightarrow>
          (case writeResults conn of
             [] \<Rightarrow>
               fst (Unsubscribe c topic) = None
               \<and> wsConn (snd (Unsubscribe c topic))
                   = Some (conn\<lparr>written := written conn @ [[JNum 6, JStr topic]]\<rparr>)
           | None # rs \<Rightarrow>
               fst (Unsubscribe c topic) = None
               \<and> wsConn (snd (Unsubscribe c topic))
                   = Some (conn\<lparr>written := written conn @ [[JNum 6, JStr topic]], writeResults := rs\<rparr>)
           | Some e # rs \<Rightarrow>
               fst (Unsubscribe c topic) = Some e
               \<and> wsConn (snd (Unsubscribe c topic)) = Some (conn\<lparr>writeResults := rs\<rparr>)))"
  proof (cases "wsConn c")
    case None
    then have "wsConn ?c1 = None" by simp
    from sendWebSocketMessage_offline [OF this, of ?m] None show ?thesis
      unfolding u by simp
  next
    case (Some conn)
    then have c1: "wsConn ?c1 = Some conn" by simp
    from sendWebSocketMessage_online [OF c1, of ?m] Some show ?thesis
      unfolding u by (simp split: list.splits option.splits)
  qed
  from h w show ?thesis by simp
qed

theorem Unsubscribe_effect_witness:
  "handlers (snd (Unsubscribe onlineClient ''/lol-gameflow/v1/session'')) ''/lol-gameflow/v1/session'' = None
   \<and> handlers (snd (Unsubscribe onlineClient ''/lol-gameflow/v1/session'')) ''OnJsonApiEvent''
       = Some [WrappedHandler 7 0]
   \<and> fst (Unsubscribe onlineClient ''/lol-gameflow/v1/session'') = None
   \<and> wsConn (snd (Unsubscribe onlineClient ''/lol-gameflow/v1/session''))
       = Some \<lparr>written = [[JNum 6, JStr ''/lol-gameflow/v1/session'']], writeResults = []\<rparr>
   \<and> fst (Unsubscribe (onlineClient\<lparr>wsConn := Some brokenConn\<rparr>) ''/lol-gameflow/v1/session'')
       = Some (Errorf ''write: broken pipe'')
   \<and> wsConn (snd (Unsubscribe (onlineClient\<lparr>wsConn := Some brokenConn\<rparr>) ''/lol-gameflow/v1/session''))
       = Some \<lparr>written = [], writeResults = []\<rparr>
   \<and> handlers (snd (Unsubscribe (onlineClient\<lparr>wsConn := Some brokenConn\<rparr>) ''/lol-gameflow/v1/session''))
        ''/lol-gameflow/v1/session'' = None"
proof -
  have ne: "''OnJsonApiEvent'' \<noteq> ''/lol-gameflow/v1/session''" by simp
  have conn: "wsConn onlineClient = Some exampleConn" by (simp add: onlineClient_def)
  have old: "handlers onlineClient ''OnJsonApiEvent'' = Some [WrappedHandler 7 0]"
    by (simp add: onlineClient_def offlineClient_def)
  have a: "handlers (snd (Unsubscribe onlineClient ''/lol-gameflow/v1/session'')) ''/lol-gameflow/v1/session'' = None
   \<and> handlers (snd (Unsubscribe onlineClient ''/lol-gameflow/v1/session'')) ''OnJsonApiEvent''
       = Some [WrappedHandler 7 0]
   \<and> fst (Unsubscribe onlineClient ''/lol-gameflow/v1/session'') = None
   \<and> wsConn (snd (Unsubscribe onlineClient ''/lol-gameflow/v1/session''))
       = Some \<lparr>written = [[JNum 6, JStr ''/lol-gameflow/v1/session'']], writeResults = []\<rparr>"
    using Unsubscribe_effect [of onlineClient "''/lol-gameflow/v1/session''"] ne conn old
    by (simp add: exampleConn_def)
  have b: "fst (Unsubscribe (onlineClient\<lparr>wsConn := Some brokenConn\<rparr>) ''/lol-gameflow/v1/session'')
       = Some (Errorf ''write: broken pipe'')
   \<and> wsConn (snd (Unsubscribe (onlineClient\<lparr>wsConn := Some brokenConn\<rparr>) ''/lol-gameflow/v1/session''))
       = Some \<lparr>written = [], writeResults = []\<rparr>
   \<and> handlers (snd (Unsubscribe (onlineClient\<lparr>wsConn := Some brokenConn\<rparr>) ''/lol-gameflow/v1/session''))
        ''/lol-gameflow/v1/session'' = None"
    using Unsubscribe_effect [of "onlineClient\<lparr>wsConn := Some brokenConn\<rparr>" "''/lol-gameflow/v1/session''"]
    by (simp add: brokenConn_def)
  from a b show ?thesis by simp
qed

section \<open>Filtering and dispatch\<close>

lemma wrappedHandlerLoop_iff:
  "wrappedHandlerLoop h F E = (if EventType E \<in> set F then [(h, E)] else [])"
  by (induction F) auto

text \<open>Which slices keep their elements: a fresh slice holds what it was made of and
  leaves the others alone; a write changes the one element of the one slice.\<close>

lemma newSlice_elems:
  assumes "newSlice hp F = (a, hp1)"
  shows "sliceElems hp1 a = F" and "b < length hp \<Longrightarrow> sliceElems hp1 b = sliceElems hp b"
  using assms by (auto simp add: newSlice_def sliceElems_def nth_append)

lemma writeSlice_elems:
  assumes "writeSlice hp b i v = Inr hp'"
  shows "sliceElems hp' b = (sliceElems hp b)[i := v]"
    and "a \<noteq> b \<Longrightarrow> sliceElems hp' a = sliceElems hp a"
  using assms by (auto simp add: writeSlice_def sliceElems_def split: if_splits)




text \<open>
  The listener also starts every closure registered under OnJsonApiEvent with the raw
  message, as an event of the type WebSocketMessage. \<open>Subscribe\<close> registers only
  slices that hold Create, Update, Delete at that moment; as long as the heap keeps
  them so, these goroutines call no handler of the caller.
\<close>

lemma raw_dispatch_calls_nothing:
  assumes "\<forall>w\<in>set (handlersAt (handlers c) ''OnJsonApiEvent'').
             \<forall>t\<in>set (sliceElems hp (eventTypes w)). validEventTypes t"
  shows "userCalls hp (rawGoroutines c message) = []"
proof -
  have no: "\<not> validEventTypes ''WebSocketMessage''" by (simp add: validEventTypes_def)
  have "\<And>w. w \<in> set (handlersAt (handlers c) ''OnJsonApiEvent'') \<Longrightarrow>
          callClosure hp w \<lparr>EventType = ''WebSocketMessage'', URI = ''OnJsonApiEvent'', Data = JArr message\<rparr> = []"
  proof -
    fix w assume m: "w \<in> set (handlersAt (handlers c) ''OnJsonApiEvent'')"
    with assms no have "''WebSocketMessage'' \<notin> set (sliceElems hp (eventTypes w))" by blast
    then show "callClosure hp w \<lparr>EventType = ''WebSocketMessage'', URI = ''OnJsonApiEvent'', Data = JArr message\<rparr> = []"
      by (cases w) (simp add: wrappedHandlerLoop_iff)
  qed
  then show ?thesis by (simp add: userCalls_def rawGoroutines_def)
qed

lemma subscribed_members:
  "w' \<in> set (handlersAt (subscribed m endpoint w) k) \<Longrightarrow> w' = w \<or> w' \<in> set (handlersAt m k)"
  by (auto simp add: subscribed_def handlersAt_def Let_def split: if_splits option.splits)

lemma Subscribe_keeps_filters_valid:
  assumes "\<forall>k. \<forall>w\<in>set (handlersAt (handlers c) k).
             \<forall>t\<in>set (sliceElems hp (eventTypes w)). validEventTypes t"
  shows "\<forall>k. \<forall>w\<in>set (handlersAt (handlers (snd (Subscribe hp c endpoint h evTypes))) k).
           \<forall>t\<in>set (sliceElems hp (eventTypes w)). validEventTypes t"
proof (cases "sliceElems hp evTypes \<noteq> [] \<and> (\<forall>t\<in>set (sliceElems hp evTypes). validEventTypes t)")
  case True
  then have eq: "Subscribe hp c endpoint h evTypes =
         sendSubscriptions (c\<lparr>handlers := subscribed (handlers c) endpoint (WrappedHandler h evTypes)\<rparr>)
           [endpoint, ''OnJsonApiEvent'']"
    using Subscribe_valid by blast
  have "handlers (snd (Subscribe hp c endpoint h evTypes))
          = handlers (c\<lparr>handlers := subscribed (handlers c) endpoint (WrappedHandler h evTypes)\<rparr>)"
    unfolding eq by (rule sendSubscriptions_handlers)
  then have hs: "handlers (snd (Subscribe hp c endpoint h evTypes))
                   = subscribed (handlers c) endpoint (WrappedHandler h evTypes)"
    by simp
  show ?thesis
  proof (intro allI ballI)
    fix k w t
    assume w: "w \<in> set (handlersAt (handlers (snd (Subscribe hp c endpoint h evTypes))) k)"
      and t: "t \<in> set (sliceElems hp (eventTypes w))"
    from w hs have "w = WrappedHandler h evTypes \<or> w \<in> set (handlersAt (handlers c) k)"
      using subscribed_members by simp
    then show "validEventTypes t"
    proof
      assume "w = WrappedHandler h evTypes"
      with t True show ?thesis by simp
    next
      assume "w \<in> set (handlersAt (handlers c) k)"
      with t assms show ?thesis by blast
    qed
  qed
next
  case False
  then have "sliceElems hp evTypes = [] \<or> (\<exists>t\<in>set (sliceElems hp evTypes). \<not> validEventTypes t)"
    by blast
  from Subscribe_invalid [OF this, of c endpoint h]
  have "snd (Subscribe hp c endpoint h evTypes) = c" by auto
  with assms show ?thesis by simp
qed

lemma listener_one_frame:
  assumes "\<not> doneClosed c" and "handleEvent c (JNum 8 # rest) = Inr gs"
  shows "fst (listenForEvents c [Inr (JNum 8 # rest)]) = rawGoroutines c (JNum 8 # rest) @ gs"
  using assms by (simp add: listenForEvents_def rawGoroutines_def Let_def)

text \<open>
  C8. For a frame [8, channelName, {eventType, uri, data}] whose eventType and uri are
  strings, \<open>handleEvent\<close> starts one goroutine for each handler registered under the
  uri of the event followed by each one registered under "/" when the channel is
  OnJsonApiEvent, and for each handler registered under the channel name otherwise;
  every one receives the event made of the frame's eventType, uri and data. A closure
  that is not registered under the keys so resolved is not started.
\<close>

theorem handleEvent_dispatch:
  assumes "map_of eventData ''eventType'' = Some (JStr evType)"
    and "map_of eventData ''uri'' = Some (JStr uri)"
    and "event = \<lparr>EventType = evType, URI = uri,
                  Data = (case map_of eventData ''data'' of None \<Rightarrow> JNull | Some d \<Rightarrow> d)\<rparr>"
    and "frame = JNum 8 # JStr channelName # JObj eventData # rest"
  shows "(channelName = ''OnJsonApiEvent'' \<longrightarrow>
            handleEvent c frame =
              Inr (map (\<lambda>h. (h, event)) (handlersAt (handlers c) uri @ handlersAt (handlers c) ''/'')))
       \<and> (channelName \<noteq> ''OnJsonApiEvent'' \<longrightarrow>
            handleEvent c frame = Inr (map (\<lambda>h. (h, event)) (handlersAt (handlers c) channelName)))
       \<and> (\<forall>w. (if channelName = ''OnJsonApiEvent''
                then w \<notin> set (handlersAt (handlers c) uri) \<and> w \<notin> set (handlersAt (handlers c) ''/'')
                else w \<notin> set (handlersAt (handlers c) channelName))
            \<longrightarrow> (\<forall>gs. handleEvent c frame = Inr gs \<longrightarrow> w \<notin> fst ` set gs))"
proof -
  have a: "channelName = ''OnJsonApiEvent'' \<longrightarrow>
            handleEvent c frame =
              Inr (map (\<lambda>h. (h, event)) (handlersAt (handlers c) uri @ handlersAt (handlers c) ''/''))"
    using assms by (simp add: handleEvent_def Let_def)
  have b: "channelName \<noteq> ''OnJsonApiEvent'' \<longrightarrow>
            handleEvent c frame = Inr (map (\<lambda>h. (h, event)) (handlersAt (handlers c) channelName))"
    using assms by (simp add: handleEvent_def Let_def)
  have img: "\<And>hs. fst ` set (map (\<lambda>h. (h, event)) hs) = set hs" by force
  have "\<forall>w. (if channelName = ''OnJsonApiEvent''
                then w \<notin> set (handlersAt (handlers c) uri) \<and> w \<notin> set (handlersAt (handlers c) ''/'')
                else w \<notin> set (handlersAt (handlers c) channelName))
            \<longrightarrow> (\<forall>gs. handleEvent c frame = Inr gs \<longrightarrow> w \<notin> fst ` set gs)"
  proof (cases "channelName = ''OnJsonApiEvent''")
    case True
    with a img show ?thesis by auto
  next
    case False
    with b img show ?thesis by auto
  qed
  with a b show ?thesis by blast
qed

theorem handleEvent_dispatch_witness:
  "handleEvent routedClient sessionFrame =
     Inr [(WrappedHandler 7 0, sessionEvent),
          (WrappedHandler 3 2, sessionEvent)]
   \<and> handleEvent routedClient
       (JNum 8 # JStr ''/lol-lobby/v2/lobby'' # JObj [(''eventType'', JStr ''Update''),
            (''uri'', JStr ''/lol-gameflow/v1/session''),
            (''data'', JObj [(''phase'', JStr ''InProgress'')])] # [])
     = Inr [(WrappedHandler 9 1, sessionEvent)]"
proof -
  let ?d = "[(''eventType'', JStr ''Update''), (''uri'', JStr ''/lol-gameflow/v1/session''),
             (''data'', JObj [(''phase'', JStr ''InProgress'')])]"
  have t: "map_of ?d ''eventType'' = Some (JStr ''Update'')" by simp
  have u: "map_of ?d ''uri'' = Some (JStr ''/lol-gameflow/v1/session'')" by simp
  have e: "sessionEvent = \<lparr>EventType = ''Update'', URI = ''/lol-gameflow/v1/session'',
                  Data = (case map_of ?d ''data'' of None \<Rightarrow> JNull | Some d \<Rightarrow> d)\<rparr>"
    by (simp add: sessionEvent_def)
  have f1: "sessionFrame = JNum 8 # JStr ''OnJsonApiEvent'' # JObj ?d # []"
    by (simp add: sessionFrame_def)
  have f2: "JNum 8 # JStr ''/lol-lobby/v2/lobby'' # JObj ?d # [] = JNum 8 # JStr ''/lol-lobby/v2/lobby'' # JObj ?d # []"
    by simp
  have ne: "''/lol-lobby/v2/lobby'' \<noteq> ''OnJsonApiEvent''" by simp
  show ?thesis
    using handleEvent_dispatch [OF t u e f1, of routedClient]
      handleEvent_dispatch [OF t u e f2, of routedClient] ne
    by (simp add: routedClient_def exampleClient_def handlersAt_def)
qed

section \<open>Malformed frames\<close>

lemma handleEvent_malformed:
  assumes "length message < 3 \<or> (\<forall>s. message ! 1 \<noteq> JStr s) \<or> (\<forall>d. message ! 2 \<noteq> JObj d)"
  shows "handleEvent c message = Inr []"
  using assms by (auto simp add: handleEvent_def split: json.splits)

lemma listener_continues_after_malformed:
  assumes "length message < 3 \<or> (\<forall>s. message ! 1 \<noteq> JStr s) \<or> (\<forall>d. message ! 2 \<noteq> JObj d)"
    and "\<not> doneClosed c"
  shows "listenLoop c (Inr message # reads) started =
           listenLoop c reads (started @ (if message = [] then [] else rawGoroutines c message))"
proof (cases message)
  case Nil
  with assms(2) show ?thesis by simp
next
  case (Cons first more)
  have h: "handleEvent c (first # more) = Inr []"
    using handleEvent_malformed [OF assms(1)] Cons by simp
  show ?thesis
    using assms(2) Cons h by (cases first) (auto simp add: rawGoroutines_def Let_def)
qed

text \<open>
  C1 fails on the code for a frame whose third element is an object without a string
  under eventType. The listener is given such a frame and then a well-formed one: the
  unchecked type assertion of \<open>handleEvent\<close> panics, the deferred recover ends the
  listener, and the handlers of the second frame are never called. Given the second
  frame alone, the listener calls them and waits for the next frame.
\<close>

theorem listener_stops_on_missing_eventType:
  "fst (snd (listenForEvents routedClient [Inr badFieldsFrame, Inr sessionFrame])) = Recovered
   \<and> userCalls exampleHeap (fst (listenForEvents routedClient [Inr badFieldsFrame, Inr sessionFrame])) = []
   \<and> fst (snd (listenForEvents routedClient [Inr sessionFrame])) = AwaitingFrame
   \<and> userCalls exampleHeap (fst (listenForEvents routedClient [Inr sessionFrame]))
       = [(7, sessionEvent), (3, sessionEvent)]"
  by (simp add: listenForEvents_def routedClient_def exampleClient_def sessionFrame_def
      badFieldsFrame_def handleEvent_def handlersAt_def userCalls_def sessionEvent_def exampleHeap_def
      sliceElems_def Let_def)

section \<open>Disconnect\<close>

text \<open>
  C2 fails on the code. After a call of \<open>Disconnect\<close> that returned, the next call
  panics: the channel \<open>done\<close> is closed a second time.
\<close>

theorem Disconnect_twice_panics:
  assumes "Disconnect c = Inr (r, c')"
  shows "Disconnect c' = Inl (Panic ''close of closed channel'')"
  using assms by (auto simp add: Disconnect_def Let_def split: if_splits option.splits)

theorem Disconnect_twice_panics_witness:
  "Disconnect exampleClient
     = Inr (None, exampleClient\<lparr>doneClosed := True, wsConn := None\<rparr>)
   \<and> Disconnect (exampleClient\<lparr>doneClosed := True, wsConn := None\<rparr>)
     = Inl (Panic ''close of closed channel'')"
proof -
  have d: "Disconnect exampleClient = Inr (None, exampleClient\<lparr>doneClosed := True, wsConn := None\<rparr>)"
    by (simp add: Disconnect_def exampleClient_def)
  from d Disconnect_twice_panics [OF d] show ?thesis by simp
qed

section \<open>Lockfile\<close>

lemma Split_nonempty: "Split s sep \<noteq> []"
  by (induction s) (auto split: list.splits)

lemma Split_join: "joinWith sep (Split s sep) = s"
proof (induction s)
  case Nil
  then show ?case by simp
next
  case (Cons ch rest)
  obtain f fs where sp: "Split rest sep = f # fs"
    using Split_nonempty [of rest sep] by (cases "Split rest sep") auto
  with Cons show ?case by (cases fs) auto
qed

lemma Split_no_sep: "f \<in> set (Split s sep) \<Longrightarrow> sep \<notin> set f"
proof (induction s arbitrary: f)
  case Nil
  then show ?case by simp
next
  case (Cons ch rest)
  obtain g gs where sp: "Split rest sep = g # gs"
    using Split_nonempty [of rest sep] by (cases "Split rest sep") auto
  with Cons show ?case by (auto split: if_splits)
qed

lemma length5:
  assumes "length xs = 5"
  shows "\<exists>a b c d e. xs = [a, b, c, d, e]"
proof -
  from assms have "length xs = Suc (Suc (Suc (Suc (Suc 0))))" by simp
  then show ?thesis by (auto simp add: length_Suc_conv)
qed

lemma parseLockfile_five:
  assumes "Split data CHR '':'' = [name, pid, port, password, protocol]"
  shows "parseLockfile data =
           (case Atoi port of None \<Rightarrow> None
            | Some n \<Rightarrow> Some \<lparr>Port = n, Password = password, Protocol = protocol\<rparr>)"
  using assms by (cases "Atoi port") (simp_all add: parseLockfile_def Let_def)

lemma parseLockfile_other:
  assumes "length (Split data CHR '':'') \<noteq> 5"
  shows "parseLockfile data = None"
  using assms by (simp add: parseLockfile_def)

lemma lockfileLoop_skip:
  assumes "readFile path = Some data" and "parseLockfile data = None"
  shows "lockfileLoop debug readFile (path # paths) logs =
         lockfileLoop debug readFile paths
           (if debug then logs @ [(''DEBUG'', ''lockfile'', ''Trying lockfile path: %s'', [path])]
            else logs)"
  using assms by (simp add: Let_def)

lemma lockfileLoop_result_logs:
  "snd (lockfileLoop debug readFile paths logs) = snd (lockfileLoop debug readFile paths logs')"
proof (induction paths arbitrary: logs logs')
  case Nil
  then show ?case by simp
next
  case (Cons path paths)
  show ?case
  proof (cases "readFile path")
    case None
    then show ?thesis using Cons.IH by (simp add: Let_def)
  next
    case (Some data)
    then show ?thesis using Cons.IH by (cases "parseLockfile data") (simp_all add: Let_def)
  qed
qed

text \<open>
  C9. The contents of a candidate lockfile give credentials exactly when \<open>Split\<close> on
  ":" gives five fields and \<open>Atoi\<close> accepts the third; the credentials are then that
  number, the fourth and the fifth field. The text
  "LeagueClientUx:1234:54321:abcDEF123:https" gives port 54321, password "abcDEF123" and
  protocol "https". A candidate that gives no credentials is skipped: the search returns
  what it returns on the remaining paths.
\<close>

theorem parseLockfile_iff:
  "(parseLockfile data = Some creds \<longleftrightarrow>
      (\<exists>name pid port password protocol n.
          Split data CHR '':'' = [name, pid, port, password, protocol]
        \<and> Atoi port = Some n
        \<and> creds = \<lparr>Port = n, Password = password, Protocol = protocol\<rparr>))
   \<and> parseLockfile ''LeagueClientUx:1234:54321:abcDEF123:https''
        = Some \<lparr>Port = 54321, Password = ''abcDEF123'', Protocol = ''https''\<rparr>
   \<and> (readFile path = Some data \<and> parseLockfile data = None \<longrightarrow>
        snd (lockfileLoop debug readFile (path # paths) logs)
          = snd (lockfileLoop debug readFile paths logs))"
proof -
  have a: "parseLockfile data = Some creds \<longleftrightarrow>
      (\<exists>name pid port password protocol n.
          Split data CHR '':'' = [name, pid, port, password, protocol]
        \<and> Atoi port = Some n
        \<and> creds = \<lparr>Port = n, Password = password, Protocol = protocol\<rparr>)"
    (is "?L \<longleftrightarrow> ?R")
  proof
    assume l: ?L
    have "length (Split data CHR '':'') = 5"
    proof (rule ccontr)
      assume "length (Split data CHR '':'') \<noteq> 5"
      from parseLockfile_other [OF this] l show False by simp
    qed
    then obtain name pid port password protocol
      where sp: "Split data CHR '':'' = [name, pid, port, password, protocol]"
      using length5 by blast
    from l parseLockfile_five [OF sp]
    have "Atoi port \<noteq> None" by (cases "Atoi port") simp_all
    then obtain n where n: "Atoi port = Some n" by blast
    with l parseLockfile_five [OF sp]
    have "creds = \<lparr>Port = n, Password = password, Protocol = protocol\<rparr>" by simp
    with sp n show ?R by blast
  next
    assume ?R
    then obtain name pid port password protocol n
      where sp: "Split data CHR '':'' = [name, pid, port, password, protocol]"
        and n: "Atoi port = Some n"
        and c: "creds = \<lparr>Port = n, Password = password, Protocol = protocol\<rparr>"
      by blast
    from parseLockfile_five [OF sp] n c show ?L by simp
  qed
  have b: "readFile path = Some data \<and> parseLockfile data = None \<longrightarrow>
        snd (lockfileLoop debug readFile (path # paths) logs)
          = snd (lockfileLoop debug readFile paths logs)"
  proof
    assume h: "readFile path = Some data \<and> parseLockfile data = None"
    then have "lockfileLoop debug readFile (path # paths) logs =
         lockfileLoop debug readFile paths
           (if debug then logs @ [(''DEBUG'', ''lockfile'', ''Trying lockfile path: %s'', [path])]
            else logs)"
      using lockfileLoop_skip by blast
    then show "snd (lockfileLoop debug readFile (path # paths) logs)
          = snd (lockfileLoop debug readFile paths logs)"
      using lockfileLoop_result_logs by metis
  qed
  have c: "parseLockfile ''LeagueClientUx:1234:54321:abcDEF123:https''
        = Some \<lparr>Port = 54321, Password = ''abcDEF123'', Protocol = ''https''\<rparr>"
    by (simp add: parseLockfile_def Atoi_def Let_def)
  from a b c show ?thesis by blast
qed

theorem parseLockfile_iff_witness:
  "lockfiles ''C:/lockfile'' = Some ''LeagueClientUx:1234:port:abcDEF123:https''
   \<and> parseLockfile ''LeagueClientUx:1234:port:abcDEF123:https'' = None
   \<and> snd (lockfileLoop False lockfiles [''C:/lockfile'', ''D:/lockfile''] [])
       = Inr \<lparr>Port = 54321, Password = ''abcDEF123'', Protocol = ''https''\<rparr>"
proof -
  have r: "lockfiles ''C:/lockfile'' = Some ''LeagueClientUx:1234:port:abcDEF123:https''"
    by (simp add: lockfiles_def)
  have p: "parseLockfile ''LeagueClientUx:1234:port:abcDEF123:https'' = None"
    by (simp add: parseLockfile_def Atoi_def Let_def)
  have d: "lockfiles ''D:/lockfile'' = Some ''LeagueClientUx:1234:54321:abcDEF123:https''"
    by (simp add: lockfiles_def)
  have skip: "snd (lockfileLoop False lockfiles [''C:/lockfile'', ''D:/lockfile''] [])
                = snd (lockfileLoop False lockfiles [''D:/lockfile''] [])"
    using parseLockfile_iff [of "''LeagueClientUx:1234:port:abcDEF123:https''"
        "\<lparr>Port = 0, Password = [], Protocol = []\<rparr>"
        lockfiles "''C:/lockfile''" False "[''D:/lockfile'']" "[]"] r p
    by blast
  have good: "parseLockfile ''LeagueClientUx:1234:54321:abcDEF123:https''
        = Some \<lparr>Port = 54321, Password = ''abcDEF123'', Protocol = ''https''\<rparr>"
    using parseLockfile_iff [of "''LeagueClientUx:1234:port:abcDEF123:https''"
        "\<lparr>Port = 0, Password = [], Protocol = []\<rparr>"
        lockfiles "''C:/lockfile''" False "[''D:/lockfile'']" "[]"]
    by blast
  have "snd (lockfileLoop False lockfiles [''D:/lockfile''] [])
          = Inr \<lparr>Port = 54321, Password = ''abcDEF123'', Protocol = ''https''\<rparr>"
    using d good by simp
  with r p skip show ?thesis by simp
qed

section \<open>Request in debug mode\<close>

lemma Do_wire:
  "wire (snd (Do lib st req)) =
     wire st @ [\<lparr>wMethod = reqMethod req, wURL = reqURL req, wHeader = reqHeader req,
                 wContentLength = reqContentLength req,
                 wBody = (case reqBody req of None \<Rightarrow> [] | Some r \<Rightarrow> fst (ReadAll st r))\<rparr>]"
  by (simp add: Do_def ReadAll_def NewReader_def Let_def split: option.splits sum.splits prod.splits)

lemma Request_debug_sends_empty_body:
  assumes "configDebug c" and "r < nextReader st"
    and "Request lib c st method endpoint (Some r) = (res, c', st')"
  shows "wire st' = wire st \<or> (\<exists>w. wire st' = wire st @ [w] \<and> wBody w = [])"
proof (cases "url_JoinPath lib (''https://127.0.0.1:'' @ fmt_d lib (Port (credentials c))) endpoint")
  case (Inl e)
  with assms(3) show ?thesis by (cases e) (simp add: Request_def Let_def)
next
  case (Inr url)
  show ?thesis
  proof (cases "NewRequest lib st method url (Some r)")
    case (Inl e)
    with Inr assms(3) show ?thesis by (simp add: Request_def Let_def)
  next
    case req0: (Inr req0)
    have b: "reqBody req0 = Some r"
      using req0 by (auto simp add: NewRequest_def split: option.splits)
    obtain bs st1 where ra: "ReadAll st r = (bs, st1)" by (cases "ReadAll st r")
    have n1: "nextReader st1 = nextReader st" and w1: "wire st1 = wire st"
      using ra by (auto simp add: ReadAll_def split: option.splits)
    let ?st2 = "snd (NewReader st1 bs True)"
    have drained: "fst (ReadAll ?st2 r) = []"
      using ra assms(2) by (auto simp add: ReadAll_def NewReader_def split: option.splits)
    have w2: "wire ?st2 = wire st" using w1 by (simp add: NewReader_def)
    let ?req = "req0\<lparr>reqHeader := [(''Authorization'', ''Basic '' @ base64_EncodeToString lib (''riot:'' @ Password (credentials c))),
                                                  (''Content-Type'', ''application/json'')]\<rparr>"
    have dw: "\<exists>w. wire (snd (Do lib ?st2 ?req)) = wire st @ [w] \<and> wBody w = []"
      using Do_wire [of lib ?st2 ?req] b drained w2 by simp
    have final: "wire st' = wire (snd (Do lib ?st2 ?req))"
      using assms(1,3) Inr req0 ra
      by (auto simp add: Request_def Let_def ReadAll_def NewReader_def
          split: prod.splits sum.splits option.splits)
    with dw show ?thesis by simp
  qed
qed

text \<open>
  C3 fails on the code for the request body. A client in debug mode posts a reader
  holding the three bytes "[1]". The bytes are logged, and the request handed to the
  transport carries none: for a \<^verbatim>\<open>bytes.Reader\<close> it announces three bytes and the
  transport fails; for a plain stream the server receives an empty body and answers to
  that. The same call without debug mode carries the three bytes.
\<close>

theorem Request_debug_loses_request_body:
  "fst (Request echoLib debugClient oneBody ''POST'' ''/x'' (Some 0))
     = Inl (Errorf ''http: ContentLength with Body length mismatch'')
   \<and> wire (snd (snd (Request echoLib debugClient oneBody ''POST'' ''/x'' (Some 0))))
     = [\<lparr>wMethod = ''POST'', wURL = ''https://127.0.0.1:54321/x'',
         wHeader = [(''Authorization'', ''Basic riot:abcDEF123''),
                    (''Content-Type'', ''application/json'')],
         wContentLength = 3, wBody = []\<rparr>]
   \<and> logger (fst (snd (Request echoLib debugClient oneBody ''POST'' ''/x'' (Some 0))))
     = [(''DEBUG'', ''/x'', ''Making %s request to %s'', [''POST'', ''https://127.0.0.1:54321/x'']),
        (''DEBUG'', ''/x'', ''Request body: %s'', [''[1]''])]
   \<and> fst (Request echoLib debugClient oneBody ''POST'' ''/x'' (Some 1))
     = Inr \<lparr>respStatus = ''200 OK'', respBody = 4\<rparr>
   \<and> wire (snd (snd (Request echoLib debugClient oneBody ''POST'' ''/x'' (Some 1))))
     = [\<lparr>wMethod = ''POST'', wURL = ''https://127.0.0.1:54321/x'',
         wHeader = [(''Authorization'', ''Basic riot:abcDEF123''),
                    (''Content-Type'', ''application/json'')],
         wContentLength = 0, wBody = []\<rparr>]
   \<and> readers (snd (snd (Request echoLib debugClient oneBody ''POST'' ''/x'' (Some 1)))) 4
     = Some \<lparr>remaining = ''echo:'', sized = True\<rparr>
   \<and> wire (snd (snd (Request echoLib exampleClient oneBody ''POST'' ''/x'' (Some 0))))
     = [\<lparr>wMethod = ''POST'', wURL = ''https://127.0.0.1:54321/x'',
         wHeader = [(''Authorization'', ''Basic riot:abcDEF123''),
                    (''Content-Type'', ''application/json'')],
         wContentLength = 3, wBody = ''[1]''\<rparr>]"
proof -
  note defs = Request_def echoLib_def debugClient_def exampleClient_def oneBody_def
    NewRequest_def Do_def ReadAll_def NewReader_def logDebug_def Let_def
  have a: "fst (Request echoLib debugClient oneBody ''POST'' ''/x'' (Some 0))
     = Inl (Errorf ''http: ContentLength with Body length mismatch'')"
    by (simp add: defs)
  have b: "wire (snd (snd (Request echoLib debugClient oneBody ''POST'' ''/x'' (Some 0))))
     = [\<lparr>wMethod = ''POST'', wURL = ''https://127.0.0.1:54321/x'',
         wHeader = [(''Authorization'', ''Basic riot:abcDEF123''),
                    (''Content-Type'', ''application/json'')],
         wContentLength = 3, wBody = []\<rparr>]"
    by (simp add: defs)
  have c: "logger (fst (snd (Request echoLib debugClient oneBody ''POST'' ''/x'' (Some 0))))
     = [(''DEBUG'', ''/x'', ''Making %s request to %s'', [''POST'', ''https://127.0.0.1:54321/x'']),
        (''DEBUG'', ''/x'', ''Request body: %s'', [''[1]''])]"
    by (simp add: defs)
  have d: "fst (Request echoLib debugClient oneBody ''POST'' ''/x'' (Some 1))
     = Inr \<lparr>respStatus = ''200 OK'', respBody = 4\<rparr>"
    by (simp add: defs)
  have e: "wire (snd (snd (Request echoLib debugClient oneBody ''POST'' ''/x'' (Some 1))))
     = [\<lparr>wMethod = ''POST'', wURL = ''https://127.0.0.1:54321/x'',
         wHeader = [(''Authorization'', ''Basic riot:abcDEF123''),
                    (''Content-Type'', ''application/json'')],
         wContentLength = 0, wBody = []\<rparr>]"
    by (simp add: defs)
  have f: "readers (snd (snd (Request echoLib debugClient oneBody ''POST'' ''/x'' (Some 1)))) 4
     = Some \<lparr>remaining = ''echo:'', sized = True\<rparr>"
    by (simp add: defs)
  have g: "wire (snd (snd (Request echoLib exampleClient oneBody ''POST'' ''/x'' (Some 0))))
     = [\<lparr>wMethod = ''POST'', wURL = ''https://127.0.0.1:54321/x'',
         wHeader = [(''Authorization'', ''Basic riot:abcDEF123''),
                    (''Content-Type'', ''application/json'')],
         wContentLength = 3, wBody = ''[1]''\<rparr>]"
    by (simp add: defs)
  from a b c d e f g show ?thesis by (intro conjI)
qed

end
